theory Spec2Isabelle
  imports Complex_Main
begin

section \<open>Data model of \<^verbatim>\<open>App.tsx\<close>\<close>

text \<open>
  The component keeps all of its state in React \<^verbatim>\<open>useState\<close> cells and changes it only
  through their setters. The embedding passes that state explicitly.

  A JavaScript \<^verbatim>\<open>number\<close> that holds a measurement (a coordinate, a confidence, the
  compliance rate, the sensitivity) is modelled as a \<^typ>\<open>real\<close>; a \<^verbatim>\<open>number\<close> that only
  ever holds a count or a clock reading in milliseconds is modelled as a \<^typ>\<open>nat\<close>
  (such values are exact in a double below \<open>2 ^ 53\<close>).
\<close>

record Detection =
  id' :: string
  x :: real
  y :: real
  width :: real
  height :: real
  hasMask :: bool
  confidence :: real
  timestamp :: nat

record Stats =
  totalDetections :: nat
  maskedCount :: nat
  unmaskedCount :: nat
  complianceRate :: real

text \<open>
  The \<^verbatim>\<open>useState\<close> cells of \<^verbatim>\<open>App\<close> (lines 25 to 35), and \<open>intervalActive\<close>: whether the
  interval installed by the effect of lines 42 to 49 is currently installed (its handle is
  the local \<^verbatim>\<open>interval\<close> of the effect's closure).
\<close>

record AppState =
  isDetecting :: bool
  detections :: "Detection list"
  stats :: Stats
  alerts :: "string list"
  sensitivity :: real
  showSettings :: bool
  intervalActive :: bool

text \<open>The initial values given to \<^verbatim>\<open>useState\<close>; no interval exists before the first effect.\<close>

definition zeroStats :: Stats where
  "zeroStats = \<lparr>totalDetections = 0, maskedCount = 0, unmaskedCount = 0, complianceRate = 0\<rparr>"

definition initialState :: AppState where
  "initialState =
     \<lparr>isDetecting = False, detections = [], stats = zeroStats, alerts = [],
      sensitivity = 0.7, showSettings = False, intervalActive = False\<rparr>"

text \<open>
  What one run of \<^verbatim>\<open>simulateDetection\<close> reads from outside the component: the seven results
  of \<^verbatim>\<open>Math.random()\<close> in the order of the calls (lines 82, 92 to 97), the two results of
  \<^verbatim>\<open>Date.now()\<close> (lines 91 and 98) and the result of
  \<^verbatim>\<open>new Date().toLocaleTimeString()\<close> (line 104).
\<close>

record Env =
  presenceDraw :: real
  xDraw :: real
  yDraw :: real
  widthDraw :: real
  heightDraw :: real
  maskDraw :: real
  confidenceDraw :: real
  nowId :: nat
  nowTimestamp :: nat
  localeTimeString :: string

text \<open>\<^verbatim>\<open>Math.random()\<close> returns a number in \<open>[0, 1)\<close>.\<close>

definition unitDraw :: "real \<Rightarrow> bool" where
  "unitDraw r = (0 \<le> r \<and> r < 1)"

definition validDraws :: "Env \<Rightarrow> bool" where
  "validDraws e =
     (unitDraw (presenceDraw e) \<and> unitDraw (xDraw e) \<and> unitDraw (yDraw e) \<and>
      unitDraw (widthDraw e) \<and> unitDraw (heightDraw e) \<and> unitDraw (maskDraw e) \<and>
      unitDraw (confidenceDraw e))"

section \<open>The setters\<close>

text \<open>
  A setter called with a value stores it; a setter called with a function applies it to the
  value the cell holds at that moment (React's functional update).
\<close>

definition setIsDetecting :: "bool \<Rightarrow> AppState \<Rightarrow> AppState" where
  "setIsDetecting v s = s\<lparr>isDetecting := v\<rparr>"

definition setDetections :: "Detection list \<Rightarrow> AppState \<Rightarrow> AppState" where
  "setDetections v s = s\<lparr>detections := v\<rparr>"

definition setStats :: "Stats \<Rightarrow> AppState \<Rightarrow> AppState" where
  "setStats v s = s\<lparr>stats := v\<rparr>"

definition setStatsWith :: "(Stats \<Rightarrow> Stats) \<Rightarrow> AppState \<Rightarrow> AppState" where
  "setStatsWith f s = s\<lparr>stats := f (stats s)\<rparr>"

definition setAlerts :: "string list \<Rightarrow> AppState \<Rightarrow> AppState" where
  "setAlerts v s = s\<lparr>alerts := v\<rparr>"

definition setAlertsWith :: "(string list \<Rightarrow> string list) \<Rightarrow> AppState \<Rightarrow> AppState" where
  "setAlertsWith f s = s\<lparr>alerts := f (alerts s)\<rparr>"

definition setSensitivity :: "real \<Rightarrow> AppState \<Rightarrow> AppState" where
  "setSensitivity v s = s\<lparr>sensitivity := v\<rparr>"

definition setShowSettings :: "bool \<Rightarrow> AppState \<Rightarrow> AppState" where
  "setShowSettings v s = s\<lparr>showSettings := v\<rparr>"

section \<open>\<^verbatim>\<open>updateStats\<close> (lines 112 to 125)\<close>

text \<open>The function \<^verbatim>\<open>prev => {...}\<close> that \<^verbatim>\<open>updateStats\<close> hands to \<^verbatim>\<open>setStats\<close>.\<close>

definition statsUpdater :: "Detection list \<Rightarrow> Stats \<Rightarrow> Stats" where
  "statsUpdater currentDetections prev =
     (let newTotal = totalDetections prev + length currentDetections;
          newMasked = maskedCount prev + length (filter (\<lambda>d. hasMask d) currentDetections);
          newUnmasked = unmaskedCount prev + length (filter (\<lambda>d. \<not> hasMask d) currentDetections)
      in \<lparr>totalDetections = newTotal,
          maskedCount = newMasked,
          unmaskedCount = newUnmasked,
          complianceRate = (if newTotal > 0 then (real newMasked / real newTotal) * 100 else 0)\<rparr>)"

definition updateStats :: "Detection list \<Rightarrow> AppState \<Rightarrow> AppState" where
  "updateStats currentDetections s = setStatsWith (statsUpdater currentDetections) s"

section \<open>\<^verbatim>\<open>simulateDetection\<close> (lines 80 to 110)\<close>

text \<open>The decimal digits of a number, as a template literal prints \<^verbatim>\<open>Date.now()\<close>.\<close>

definition digitChar :: "nat \<Rightarrow> char" where
  "digitChar d = ''0123456789'' ! d"

fun numberToString :: "nat \<Rightarrow> string" where
  "numberToString n =
     (if n < 10 then [digitChar n] else numberToString (n div 10) @ [digitChar (n mod 10)])"

declare numberToString.simps [simp del]

text \<open>Lines 102 to 106: the alert for an unmasked face.\<close>

definition alertMessage :: "string \<Rightarrow> string" where
  "alertMessage timeString = ''Alert: No mask detected at '' @ timeString"

definition recordAlert :: "Detection \<Rightarrow> string \<Rightarrow> AppState \<Rightarrow> AppState" where
  "recordAlert detection timeString s =
     (if \<not> hasMask detection
      then setAlertsWith (\<lambda>prev. alertMessage timeString # take 4 prev) s
      else s)"

text \<open>Lines 90 to 99: the detection synthesised when a person is present.\<close>

definition newDetection :: "Env \<Rightarrow> Detection" where
  "newDetection e =
     \<lparr>id' = ''face-'' @ numberToString (nowId e),
      x = xDraw e * 500 + 50,
      y = yDraw e * 300 + 50,
      width = 80 + widthDraw e * 40,
      height = 100 + heightDraw e * 40,
      hasMask = (maskDraw e > 0.3),
      confidence = confidenceDraw e * 0.3 + 0.7,
      timestamp = nowTimestamp e\<rparr>"

definition simulateDetection :: "Env \<Rightarrow> AppState \<Rightarrow> AppState" where
  "simulateDetection e s =
     (let hasPersonPresent = (presenceDraw e > 0.6)
      in if \<not> hasPersonPresent then setDetections [] s
         else
           let detection = newDetection e;
               newDetections = [] @ [detection];
               s1 = recordAlert detection (localeTimeString e) s;
               s2 = setDetections newDetections s1
           in updateStats newDetections s2)"

section \<open>\<^verbatim>\<open>toggleDetection\<close>, \<^verbatim>\<open>resetStats\<close> and the interval effect\<close>

definition toggleDetection :: "AppState \<Rightarrow> AppState" where
  "toggleDetection s = setIsDetecting (\<not> isDetecting s) s"

definition resetStats :: "AppState \<Rightarrow> AppState" where
  "resetStats s =
     setAlerts []
       (setStats \<lparr>totalDetections = 0, maskedCount = 0, unmaskedCount = 0, complianceRate = 0\<rparr> s)"

text \<open>
  Lines 42 to 49. When \<^verbatim>\<open>isDetecting\<close> or \<^verbatim>\<open>sensitivity\<close> has changed, React first runs the
  cleanup the effect returned last time (\<^verbatim>\<open>clearInterval\<close>) and then the effect again, which
  installs an interval only if \<^verbatim>\<open>isDetecting\<close> holds.
\<close>

definition detectionEffect :: "AppState \<Rightarrow> AppState" where
  "detectionEffect s =
     (let cleared = s\<lparr>intervalActive := False\<rparr>
      in if isDetecting cleared then cleared\<lparr>intervalActive := True\<rparr> else cleared)"

text \<open>
  What can happen to the component: a click on the start/stop button, on the reset button,
  on the settings button, a move of the sensitivity slider, and the interval's callback
  firing with the environment it then reads. A callback runs only while its interval is
  installed.
\<close>

datatype Event =
  ClickToggle
  | ClickReset
  | ClickSettings
  | SlideSensitivity real
  | IntervalFire Env

fun handleEvent :: "AppState \<Rightarrow> Event \<Rightarrow> AppState" where
  "handleEvent s ClickToggle = detectionEffect (toggleDetection s)"
| "handleEvent s ClickReset = resetStats s"
| "handleEvent s ClickSettings = setShowSettings (\<not> showSettings s) s"
| "handleEvent s (SlideSensitivity v) =
     (if v = sensitivity s then setSensitivity v s else detectionEffect (setSensitivity v s))"
| "handleEvent s (IntervalFire e) = (if intervalActive s then simulateDetection e s else s)"

definition run :: "AppState \<Rightarrow> Event list \<Rightarrow> AppState" where
  "run s evs = foldl handleEvent s evs"

definition isFire :: "Event \<Rightarrow> bool" where
  "isFire ev = (case ev of IntervalFire e \<Rightarrow> True | _ \<Rightarrow> False)"

section \<open>Sequences of updates and the properties stated about them\<close>

text \<open>The statistics after a sequence of batches, and the state after a sequence of ticks.\<close>

definition applyBatches :: "Stats \<Rightarrow> Detection list list \<Rightarrow> Stats" where
  "applyBatches prev batches = foldl (\<lambda>st b. statsUpdater b st) prev batches"

definition ticks :: "AppState \<Rightarrow> Env list \<Rightarrow> AppState" where
  "ticks s envs = foldl (\<lambda>st e. simulateDetection e st) s envs"

definition countsAgree :: "Stats \<Rightarrow> bool" where
  "countsAgree st = (maskedCount st + unmaskedCount st = totalDetections st)"

text \<open>The rate that belongs to the counters of \<open>st\<close>.\<close>

definition rateOfCounts :: "Stats \<Rightarrow> real" where
  "rateOfCounts st =
     (if totalDetections st > 0
      then (real (maskedCount st) / real (totalDetections st)) * 100 else 0)"

definition statsConsistent :: "Stats \<Rightarrow> bool" where
  "statsConsistent st = (countsAgree st \<and> complianceRate st = rateOfCounts st)"

text \<open>
  Concrete inputs for the examples: an environment with presence draw \<open>p\<close> and mask draw
  \<open>m\<close>, and a running state that shows one detection and holds five alerts.
\<close>

definition envWith :: "real \<Rightarrow> real \<Rightarrow> Env" where
  "envWith p m =
     \<lparr>presenceDraw = p, xDraw = 0.5, yDraw = 0.25, widthDraw = 0.75, heightDraw = 0,
      maskDraw = m, confidenceDraw = 0.5, nowId = 1700000000000,
      nowTimestamp = 1700000000001, localeTimeString = ''10:15:30 AM''\<rparr>"

definition fullLogState :: AppState where
  "fullLogState =
     \<lparr>isDetecting = True, detections = [newDetection (envWith 0.9 0.9)],
      stats = \<lparr>totalDetections = 7, maskedCount = 2, unmaskedCount = 5,
               complianceRate = (2 / 7) * 100\<rparr>,
      alerts = [''a5'', ''a4'', ''a3'', ''a2'', ''a1''],
      sensitivity = 0.7, showSettings = False, intervalActive = True\<rparr>"

text \<open>Detection is off and no interval is installed.\<close>

definition stopped :: "AppState \<Rightarrow> bool" where
  "stopped s = (\<not> isDetecting s \<and> \<not> intervalActive s)"

section \<open>The statistics\<close>

lemma statsUpdater_total [simp]:
  "totalDetections (statsUpdater b p) = totalDetections p + length b"
  by (simp add: statsUpdater_def Let_def)

lemma statsUpdater_masked [simp]:
  "maskedCount (statsUpdater b p) = maskedCount p + length (filter hasMask b)"
  by (simp add: statsUpdater_def Let_def)

lemma statsUpdater_unmasked [simp]:
  "unmaskedCount (statsUpdater b p) = unmaskedCount p + length (filter (\<lambda>d. \<not> hasMask d) b)"
  by (simp add: statsUpdater_def Let_def)

lemma statsUpdater_rate:
  "complianceRate (statsUpdater b p) = rateOfCounts (statsUpdater b p)"
  by (simp add: statsUpdater_def Let_def rateOfCounts_def)

lemma statsUpdater_countsAgree:
  "countsAgree p \<Longrightarrow> countsAgree (statsUpdater b p)"
  using sum_length_filter_compl [of hasMask b]
  by (simp add: countsAgree_def)

lemma statsUpdater_consistent:
  "statsConsistent p \<Longrightarrow> statsConsistent (statsUpdater b p)"
  by (simp add: statsConsistent_def statsUpdater_countsAgree statsUpdater_rate)

lemma zeroStats_consistent: "statsConsistent zeroStats"
  by (simp add: statsConsistent_def countsAgree_def rateOfCounts_def zeroStats_def)

lemma applyBatches_consistent:
  "statsConsistent p \<Longrightarrow> statsConsistent (applyBatches p batches)"
  unfolding applyBatches_def
  by (induction batches arbitrary: p) (simp_all add: statsUpdater_consistent)

lemma stats_simulateDetection:
  "stats (simulateDetection e s) =
     (if presenceDraw e > 0.6 then statsUpdater [newDetection e] (stats s) else stats s)"
  by (simp add: simulateDetection_def Let_def setDetections_def updateStats_def
      setStatsWith_def recordAlert_def setAlertsWith_def)

lemma alerts_simulateDetection:
  "alerts (simulateDetection e s) =
     (if presenceDraw e > 0.6
      then alerts (recordAlert (newDetection e) (localeTimeString e) s) else alerts s)"
  by (simp add: simulateDetection_def Let_def setDetections_def updateStats_def
      setStatsWith_def recordAlert_def setAlertsWith_def)

lemma detections_simulateDetection:
  "detections (simulateDetection e s) =
     (if presenceDraw e > 0.6 then [newDetection e] else [])"
  by (simp add: simulateDetection_def Let_def setDetections_def updateStats_def
      setStatsWith_def recordAlert_def setAlertsWith_def)

lemma simulateDetection_consistent:
  "statsConsistent (stats s) \<Longrightarrow> statsConsistent (stats (simulateDetection e s))"
  by (simp add: stats_simulateDetection statsUpdater_consistent)

lemma ticks_consistent:
  "statsConsistent (stats s) \<Longrightarrow> statsConsistent (stats (ticks s envs))"
  unfolding ticks_def
  by (induction envs arbitrary: s) (simp_all add: simulateDetection_consistent)

lemma stats_detectionEffect [simp]: "stats (detectionEffect s) = stats s"
  by (simp add: detectionEffect_def Let_def)

lemma handleEvent_consistent:
  "statsConsistent (stats s) \<Longrightarrow> statsConsistent (stats (handleEvent s ev))"
proof (cases ev)
  case ClickReset
  then show ?thesis
    by (simp add: resetStats_def setAlerts_def setStats_def statsConsistent_def
        countsAgree_def rateOfCounts_def)
next
  case (IntervalFire e)
  assume "statsConsistent (stats s)"
  with IntervalFire show ?thesis by (simp add: simulateDetection_consistent)
qed (simp_all add: toggleDetection_def setIsDetecting_def setShowSettings_def
      setSensitivity_def)

lemma run_consistent:
  "statsConsistent (stats s) \<Longrightarrow> statsConsistent (stats (run s evs))"
  unfolding run_def
  by (induction evs arbitrary: s) (simp_all add: handleEvent_consistent)

lemma initialState_consistent: "statsConsistent (stats initialState)"
  by (simp add: initialState_def zeroStats_consistent)

text \<open>
  C1. After any sequence of updates from the zero statistics the masked and the unmasked
  count add up to the total: for the updater applied to any sequence of batches, for any
  sequence of ticks from a state whose statistics are zero, and for any sequence of events
  from the initial state of the component.
\<close>

theorem counts_agree_always:
  "countsAgree (applyBatches zeroStats batches) \<and>
   countsAgree (stats (ticks (setStats zeroStats s) envs)) \<and>
   countsAgree (stats (run initialState evs))"
proof -
  have "statsConsistent (stats (setStats zeroStats s))"
    by (simp add: setStats_def zeroStats_consistent)
  then have "statsConsistent (stats (ticks (setStats zeroStats s) envs))"
    by (rule ticks_consistent)
  moreover have "statsConsistent (applyBatches zeroStats batches)"
    by (rule applyBatches_consistent [OF zeroStats_consistent])
  moreover have "statsConsistent (stats (run initialState evs))"
    by (rule run_consistent [OF initialState_consistent])
  ultimately show ?thesis by (simp add: statsConsistent_def)
qed


lemma rateOfCounts_bounds:
  assumes "countsAgree st"
  shows "0 \<le> rateOfCounts st \<and> rateOfCounts st \<le> 100"
proof (cases "totalDetections st > 0")
  case True
  from assms have "maskedCount st \<le> totalDetections st"
    by (simp add: countsAgree_def)
  with True have "real (maskedCount st) / real (totalDetections st) \<le> 1"
    by simp
  then have "real (maskedCount st) / real (totalDetections st) * 100 \<le> 1 * 100"
    by (rule mult_right_mono) simp
  moreover have "0 \<le> real (maskedCount st) / real (totalDetections st) * 100"
    by simp
  ultimately show ?thesis using True by (simp add: rateOfCounts_def)
next
  case False
  then show ?thesis by (simp add: rateOfCounts_def)
qed

lemma rateOfCounts_zero_iff:
  assumes "countsAgree st"
  shows "rateOfCounts st = 0 \<longleftrightarrow> maskedCount st = 0"
proof (cases "totalDetections st > 0")
  case True
  then show ?thesis by (simp add: rateOfCounts_def)
next
  case False
  with assms show ?thesis by (simp add: rateOfCounts_def countsAgree_def)
qed

lemma consistent_rate_facts:
  assumes "statsConsistent st"
  shows "0 \<le> complianceRate st \<and> complianceRate st \<le> 100 \<and>
         (totalDetections st = 0 \<longrightarrow> complianceRate st = 0) \<and>
         (complianceRate st = 0 \<longleftrightarrow> maskedCount st = 0)"
proof -
  from assms have c: "countsAgree st" and r: "complianceRate st = rateOfCounts st"
    by (simp_all add: statsConsistent_def)
  from c have "totalDetections st = 0 \<longrightarrow> maskedCount st = 0"
    by (simp add: countsAgree_def)
  with rateOfCounts_bounds [OF c] rateOfCounts_zero_iff [OF c] r show ?thesis
    by simp
qed

text \<open>
  C2, as stated, fails: the first tick from the initial state that shows an unmasked face
  leaves one detection counted and a compliance rate of 0.
\<close>

theorem compliance_zero_counterexample:
  "\<not> (complianceRate (stats (simulateDetection (envWith 0.9 0.1) initialState)) = 0 \<longleftrightarrow>
      totalDetections (stats (simulateDetection (envWith 0.9 0.1) initialState)) = 0)"
  by (simp add: stats_simulateDetection envWith_def initialState_def zeroStats_def
      statsUpdater_def Let_def newDetection_def)

text \<open>
  C2, amended. In every statistics value reached by updates from the zero statistics the
  compliance rate lies between 0 and 100, it is 0 whenever no detection has been counted,
  and it is 0 exactly when the masked count is 0.
\<close>

theorem compliance_rate_range:
  assumes "st = applyBatches zeroStats batches \<or> st = stats (run initialState evs)"
  shows "0 \<le> complianceRate st \<and> complianceRate st \<le> 100 \<and>
         (totalDetections st = 0 \<longrightarrow> complianceRate st = 0) \<and>
         (complianceRate st = 0 \<longleftrightarrow> maskedCount st = 0)"
proof -
  from assms have "statsConsistent st"
    using applyBatches_consistent [OF zeroStats_consistent, of batches]
      run_consistent [OF initialState_consistent, of evs]
    by auto
  then show ?thesis by (rule consistent_rate_facts)
qed

theorem compliance_rate_range_witness:
  "totalDetections (applyBatches zeroStats []) = 0 \<and>
   complianceRate (applyBatches zeroStats []) = 0 \<and>
   totalDetections (applyBatches zeroStats
     [[newDetection (envWith 0.9 0.9)], [], [newDetection (envWith 0.9 0.1)]]) = 2 \<and>
   complianceRate (applyBatches zeroStats
     [[newDetection (envWith 0.9 0.9)], [], [newDetection (envWith 0.9 0.1)]]) = 50 \<and>
   0 \<le> complianceRate (applyBatches zeroStats
     [[newDetection (envWith 0.9 0.9)], [], [newDetection (envWith 0.9 0.1)]]) \<and>
   complianceRate (applyBatches zeroStats
     [[newDetection (envWith 0.9 0.9)], [], [newDetection (envWith 0.9 0.1)]]) \<le> 100"
  using compliance_rate_range [of "applyBatches zeroStats []" "[]" "[]"]
    compliance_rate_range [of "applyBatches zeroStats
     [[newDetection (envWith 0.9 0.9)], [], [newDetection (envWith 0.9 0.1)]]"
     "[[newDetection (envWith 0.9 0.9)], [], [newDetection (envWith 0.9 0.1)]]" "[]"]
  by (simp add: applyBatches_def statsUpdater_def Let_def zeroStats_def newDetection_def
      envWith_def)

section \<open>One tick\<close>

lemma newDetection_bounds:
  assumes "validDraws e"
  shows "50 \<le> x (newDetection e) \<and> x (newDetection e) \<le> 550 \<and>
         50 \<le> y (newDetection e) \<and> y (newDetection e) \<le> 350 \<and>
         80 \<le> width (newDetection e) \<and> width (newDetection e) \<le> 120 \<and>
         100 \<le> height (newDetection e) \<and> height (newDetection e) \<le> 140 \<and>
         0.7 \<le> confidence (newDetection e) \<and> confidence (newDetection e) \<le> 1.0"
  using assms by (simp add: validDraws_def unitDraw_def newDetection_def)

text \<open>
  C3. With every draw in \<open>[0, 1)\<close>: when the presence draw does not exceed 0.6 the tick
  shows no detection; otherwise it shows exactly one, with \<open>x\<close> in \<open>[50, 550]\<close>, \<open>y\<close> in
  \<open>[50, 350]\<close>, width in \<open>[80, 120]\<close>, height in \<open>[100, 140]\<close>, confidence in
  \<open>[0.7, 1.0]\<close>, and a mask exactly when the mask draw exceeds 0.3. A tick never shows
  more than one detection.
\<close>

theorem simulateDetection_result:
  assumes "validDraws e"
  shows "(\<not> presenceDraw e > 0.6 \<longrightarrow> detections (simulateDetection e s) = []) \<and>
         (presenceDraw e > 0.6 \<longrightarrow>
            detections (simulateDetection e s) = [newDetection e] \<and>
            50 \<le> x (newDetection e) \<and> x (newDetection e) \<le> 550 \<and>
            50 \<le> y (newDetection e) \<and> y (newDetection e) \<le> 350 \<and>
            80 \<le> width (newDetection e) \<and> width (newDetection e) \<le> 120 \<and>
            100 \<le> height (newDetection e) \<and> height (newDetection e) \<le> 140 \<and>
            0.7 \<le> confidence (newDetection e) \<and> confidence (newDetection e) \<le> 1.0 \<and>
            (hasMask (newDetection e) \<longleftrightarrow> maskDraw e > 0.3)) \<and>
         length (detections (simulateDetection e s)) \<le> 1"
proof -
  have "hasMask (newDetection e) \<longleftrightarrow> maskDraw e > 0.3"
    by (simp add: newDetection_def)
  with newDetection_bounds [OF assms] show ?thesis
    by (simp add: detections_simulateDetection)
qed

theorem simulateDetection_result_witness:
  "validDraws (envWith 0.9 0.1) \<and> validDraws (envWith 0.6 0.1) \<and>
   detections (simulateDetection (envWith 0.6 0.1) fullLogState) = [] \<and>
   detections (simulateDetection (envWith 0.9 0.1) fullLogState) =
     [\<lparr>id' = ''face-1700000000000'', x = 300, y = 125, width = 110, height = 100,
       hasMask = False, confidence = 0.85, timestamp = 1700000000001\<rparr>]"
proof -
  have v1: "validDraws (envWith 0.9 0.1)" and v2: "validDraws (envWith 0.6 0.1)"
    by (simp_all add: validDraws_def unitDraw_def envWith_def)
  have d: "newDetection (envWith 0.9 0.1) =
     \<lparr>id' = ''face-1700000000000'', x = 300, y = 125, width = 110, height = 100,
       hasMask = False, confidence = 0.85, timestamp = 1700000000001\<rparr>"
    by (simp add: newDetection_def envWith_def numberToString.simps digitChar_def)
  from simulateDetection_result [OF v1, of fullLogState]
    simulateDetection_result [OF v2, of fullLogState] v1 v2 d
  show ?thesis by (simp add: envWith_def)
qed


section \<open>The alert log\<close>

lemma alerts_recordAlert:
  "alerts (recordAlert d t s) =
     (if hasMask d then alerts s else take 5 (alertMessage t # alerts s))"
  by (simp add: recordAlert_def setAlertsWith_def)

lemma recordAlert_length:
  "length (alerts s) \<le> 5 \<Longrightarrow> length (alerts (recordAlert d t s)) \<le> 5"
  by (simp add: alerts_recordAlert)

lemma alerts_detectionEffect [simp]: "alerts (detectionEffect s) = alerts s"
  by (simp add: detectionEffect_def Let_def)

lemma handleEvent_alerts_length:
  "length (alerts s) \<le> 5 \<Longrightarrow> length (alerts (handleEvent s ev)) \<le> 5"
  by (cases ev)
    (simp_all add: toggleDetection_def setIsDetecting_def setShowSettings_def
      setSensitivity_def resetStats_def setAlerts_def setStats_def
      alerts_simulateDetection recordAlert_length)

lemma run_alerts_length:
  "length (alerts s) \<le> 5 \<Longrightarrow> length (alerts (run s evs)) \<le> 5"
  unfolding run_def
  by (induction evs arbitrary: s) (simp_all add: handleEvent_alerts_length)

text \<open>
  C4. For a detection without a mask the alert log becomes the formatted message followed
  by the first four old entries, that is the first five entries of the old log with the
  message put in front, so the oldest entries are the ones dropped; for a detection with a
  mask the log is unchanged. A tick that shows a detection records it in this way and any
  other tick leaves the log alone, so a log of at most five entries stays so, and the log
  reached from the initial state by any sequence of events has at most five entries.
\<close>

theorem recordAlert_log:
  "(\<not> hasMask d \<longrightarrow>
      alerts (recordAlert d t s) = take 5 (alertMessage t # alerts s) \<and>
      alerts (recordAlert d t s) = alertMessage t # take 4 (alerts s) \<and>
      length (alerts (recordAlert d t s)) \<le> 5) \<and>
   (hasMask d \<longrightarrow> alerts (recordAlert d t s) = alerts s) \<and>
   (length (alerts s) \<le> 5 \<longrightarrow> length (alerts (recordAlert d t s)) \<le> 5) \<and>
   alerts (simulateDetection e s) =
     (if presenceDraw e > 0.6
      then alerts (recordAlert (newDetection e) (localeTimeString e) s) else alerts s) \<and>
   length (alerts (run initialState evs)) \<le> 5"
proof -
  have "length (alerts initialState) \<le> 5" by (simp add: initialState_def)
  then have "length (alerts (run initialState evs)) \<le> 5" by (rule run_alerts_length)
  then show ?thesis
    by (simp add: alerts_recordAlert alerts_simulateDetection)
qed

theorem recordAlert_log_witness:
  "\<not> hasMask (newDetection (envWith 0.9 0.1)) \<and>
   hasMask (newDetection (envWith 0.9 0.9)) \<and>
   length (alerts fullLogState) \<le> 5 \<and>
   alerts (recordAlert (newDetection (envWith 0.9 0.1)) ''10:15:30 AM'' fullLogState) =
     [''Alert: No mask detected at 10:15:30 AM'', ''a5'', ''a4'', ''a3'', ''a2''] \<and>
   alerts (recordAlert (newDetection (envWith 0.9 0.9)) ''10:15:30 AM'' fullLogState) =
     [''a5'', ''a4'', ''a3'', ''a2'', ''a1'']"
  using recordAlert_log [of "newDetection (envWith 0.9 0.1)" "''10:15:30 AM''" fullLogState
      "envWith 0.9 0.1" "[]"]
    recordAlert_log [of "newDetection (envWith 0.9 0.9)" "''10:15:30 AM''" fullLogState
      "envWith 0.9 0.9" "[]"]
  by (simp add: newDetection_def envWith_def fullLogState_def alertMessage_def)

section \<open>Frame and algebra of the updates\<close>

text \<open>
  C6. A tick that yields no detection leaves the statistics and the alert log unchanged;
  its only effect is that the displayed detection list becomes empty.
\<close>

theorem empty_tick_frame:
  assumes "detections (simulateDetection e s) = []"
  shows "stats (simulateDetection e s) = stats s \<and>
         alerts (simulateDetection e s) = alerts s \<and>
         simulateDetection e s = s\<lparr>detections := []\<rparr>"
proof -
  from assms have "\<not> presenceDraw e > 0.6"
    by (simp add: detections_simulateDetection split: if_splits)
  then show ?thesis
    by (simp add: simulateDetection_def setDetections_def)
qed

theorem empty_tick_frame_witness:
  "detections (simulateDetection (envWith 0.6 0.1) fullLogState) = [] \<and>
   stats (simulateDetection (envWith 0.6 0.1) fullLogState) = stats fullLogState \<and>
   alerts (simulateDetection (envWith 0.6 0.1) fullLogState) = alerts fullLogState \<and>
   detections fullLogState \<noteq> []"
proof -
  have h: "detections (simulateDetection (envWith 0.6 0.1) fullLogState) = []"
    by (simp add: detections_simulateDetection envWith_def)
  from empty_tick_frame [OF h] h show ?thesis
    by (simp add: fullLogState_def)
qed

text \<open>
  C7. Updating with batch \<open>b1\<close> and then \<open>b2\<close> gives the same statistics, compliance
  rate included, as updating with \<open>b2\<close> and then \<open>b1\<close>, and the same as one update with
  \<open>b1 @ b2\<close>; so does \<^verbatim>\<open>updateStats\<close> on the component's state.
\<close>

theorem statsUpdater_order_independent:
  "statsUpdater b2 (statsUpdater b1 st) = statsUpdater b1 (statsUpdater b2 st) \<and>
   statsUpdater b2 (statsUpdater b1 st) = statsUpdater (b1 @ b2) st \<and>
   stats (updateStats b2 (updateStats b1 s)) = stats (updateStats b1 (updateStats b2 s)) \<and>
   stats (updateStats b2 (updateStats b1 s)) = stats (updateStats (b1 @ b2) s)"
  by (simp add: statsUpdater_def Let_def updateStats_def setStatsWith_def add.assoc
      add.commute add.left_commute)

text \<open>
  C8. A tick does not read the sensitivity: with the same environment, two states that
  differ only in their sensitivity (any two values, those of \<open>[0.5, 1.0]\<close> among them) get
  the same detections, the same statistics and the same alert log, and the tick commutes
  with setting the sensitivity.
\<close>

theorem sensitivity_inert:
  "simulateDetection e (setSensitivity v s) = setSensitivity v (simulateDetection e s) \<and>
   detections (simulateDetection e (setSensitivity v1 s)) =
     detections (simulateDetection e (setSensitivity v2 s)) \<and>
   stats (simulateDetection e (setSensitivity v1 s)) =
     stats (simulateDetection e (setSensitivity v2 s)) \<and>
   alerts (simulateDetection e (setSensitivity v1 s)) =
     alerts (simulateDetection e (setSensitivity v2 s))"
  by (simp add: simulateDetection_def Let_def setSensitivity_def setDetections_def
      updateStats_def setStatsWith_def recordAlert_def setAlertsWith_def)


section \<open>Stopping and restarting\<close>

lemma toggle_fields:
  "isDetecting (handleEvent s ClickToggle) = (\<not> isDetecting s) \<and>
   intervalActive (handleEvent s ClickToggle) = (\<not> isDetecting s) \<and>
   detections (handleEvent s ClickToggle) = detections s \<and>
   stats (handleEvent s ClickToggle) = stats s \<and>
   alerts (handleEvent s ClickToggle) = alerts s"
  by (simp add: detectionEffect_def Let_def toggleDetection_def setIsDetecting_def)

lemma stopped_handleEvent:
  assumes "stopped s" and "ev \<noteq> ClickToggle"
  shows "stopped (handleEvent s ev)"
  using assms
  by (cases ev)
    (simp_all add: stopped_def resetStats_def setAlerts_def setStats_def
      setShowSettings_def setSensitivity_def detectionEffect_def Let_def)

lemma stopped_fire_skipped:
  "stopped s \<Longrightarrow> isFire ev \<Longrightarrow> handleEvent s ev = s"
  by (cases ev) (simp_all add: stopped_def isFire_def)

lemma stopped_run:
  assumes "stopped s" and "ClickToggle \<notin> set evs"
  shows "stopped (run s evs)"
  using assms unfolding run_def
proof (induction evs arbitrary: s)
  case Nil
  then show ?case by simp
next
  case (Cons ev evs)
  from Cons.prems have ne: "ev \<noteq> ClickToggle" and nt: "ClickToggle \<notin> set evs"
    by auto
  from Cons.prems(1) ne have "stopped (handleEvent s ev)"
    by (rule stopped_handleEvent)
  then have "stopped (foldl handleEvent (handleEvent s ev) evs)"
    using nt by (rule Cons.IH)
  then show ?case by simp
qed

lemma stopped_run_skips_fires:
  assumes "stopped s" and "ClickToggle \<notin> set evs"
  shows "run s evs = run s (filter (\<lambda>ev. \<not> isFire ev) evs)"
  using assms unfolding run_def
proof (induction evs arbitrary: s)
  case Nil
  then show ?case by simp
next
  case (Cons ev evs)
  from Cons.prems have ne: "ev \<noteq> ClickToggle" and nt: "ClickToggle \<notin> set evs"
    by auto
  show ?case
  proof (cases "isFire ev")
    case True
    with Cons.prems(1) have "handleEvent s ev = s" by (simp add: stopped_fire_skipped)
    moreover have "foldl handleEvent s evs =
        foldl handleEvent s (filter (\<lambda>ev. \<not> isFire ev) evs)"
      using Cons.prems(1) nt by (rule Cons.IH)
    ultimately show ?thesis using True by simp
  next
    case False
    from Cons.prems(1) ne have "stopped (handleEvent s ev)"
      by (rule stopped_handleEvent)
    then have "foldl handleEvent (handleEvent s ev) evs =
        foldl handleEvent (handleEvent s ev) (filter (\<lambda>ev. \<not> isFire ev) evs)"
      using nt by (rule Cons.IH)
    with False show ?thesis by simp
  qed
qed

text \<open>
  C9, as stated, fails: after a start and a tick that shows a detection, stopping leaves
  that detection displayed. \<^verbatim>\<open>toggleDetection\<close> only flips the flag, and the effect's
  cleanup only clears the interval.
\<close>

theorem stop_clears_display_counterexample:
  "isDetecting (run initialState [ClickToggle, IntervalFire (envWith 0.9 0.9)]) \<and>
   \<not> isDetecting
      (handleEvent (run initialState [ClickToggle, IntervalFire (envWith 0.9 0.9)]) ClickToggle) \<and>
   detections
      (handleEvent (run initialState [ClickToggle, IntervalFire (envWith 0.9 0.9)]) ClickToggle)
     \<noteq> []"
  by (simp add: run_def toggle_fields initialState_def detectionEffect_def Let_def
      toggleDetection_def setIsDetecting_def simulateDetection_def envWith_def
      setDetections_def updateStats_def setStatsWith_def recordAlert_def newDetection_def)

text \<open>
  C9, amended. When the detecting flag goes from true to false the interval is removed,
  and the displayed detections and the statistics are as before. Until the next click on
  the start/stop button no interval is installed, so no tick runs: any sequence of other
  events has the effect it has with its interval firings left out. Starting again installs
  the interval and leaves the statistics as they were; no click on the button changes them.
\<close>

theorem stop_detection:
  assumes "isDetecting s"
  shows "\<not> isDetecting (handleEvent s ClickToggle) \<and>
         \<not> intervalActive (handleEvent s ClickToggle) \<and>
         detections (handleEvent s ClickToggle) = detections s \<and>
         stats (handleEvent s ClickToggle) = stats s \<and>
         (ClickToggle \<notin> set evs \<longrightarrow>
            \<not> intervalActive (run (handleEvent s ClickToggle) evs) \<and>
            run (handleEvent s ClickToggle) evs =
              run (handleEvent s ClickToggle) (filter (\<lambda>ev. \<not> isFire ev) evs)) \<and>
         isDetecting (handleEvent (handleEvent s ClickToggle) ClickToggle) \<and>
         intervalActive (handleEvent (handleEvent s ClickToggle) ClickToggle) \<and>
         stats (handleEvent (handleEvent s ClickToggle) ClickToggle) = stats s \<and>
         stats (handleEvent t ClickToggle) = stats t"
proof -
  from assms have st: "stopped (handleEvent s ClickToggle)"
    by (simp add: stopped_def toggle_fields del: handleEvent.simps)
  have "ClickToggle \<notin> set evs \<longrightarrow>
            \<not> intervalActive (run (handleEvent s ClickToggle) evs) \<and>
            run (handleEvent s ClickToggle) evs =
              run (handleEvent s ClickToggle) (filter (\<lambda>ev. \<not> isFire ev) evs)"
  proof
    assume nt: "ClickToggle \<notin> set evs"
    from stopped_run [OF st nt]
    have "\<not> intervalActive (run (handleEvent s ClickToggle) evs)"
      by (simp add: stopped_def del: handleEvent.simps)
    with stopped_run_skips_fires [OF st nt]
    show "\<not> intervalActive (run (handleEvent s ClickToggle) evs) \<and>
            run (handleEvent s ClickToggle) evs =
              run (handleEvent s ClickToggle) (filter (\<lambda>ev. \<not> isFire ev) evs)"
      by (intro conjI)
  qed
  moreover from assms have
    "\<not> isDetecting (handleEvent s ClickToggle) \<and>
     \<not> intervalActive (handleEvent s ClickToggle) \<and>
     detections (handleEvent s ClickToggle) = detections s \<and>
     stats (handleEvent s ClickToggle) = stats s \<and>
     isDetecting (handleEvent (handleEvent s ClickToggle) ClickToggle) \<and>
     intervalActive (handleEvent (handleEvent s ClickToggle) ClickToggle) \<and>
     stats (handleEvent (handleEvent s ClickToggle) ClickToggle) = stats s \<and>
     stats (handleEvent t ClickToggle) = stats t"
    by (simp add: toggle_fields del: handleEvent.simps)
  ultimately show ?thesis by blast
qed

theorem stop_detection_witness:
  "isDetecting fullLogState \<and>
   ClickToggle \<notin> set [IntervalFire (envWith 0.9 0.1), ClickSettings] \<and>
   \<not> isDetecting (handleEvent fullLogState ClickToggle) \<and>
   stats (handleEvent fullLogState ClickToggle) = stats fullLogState \<and>
   detections (handleEvent fullLogState ClickToggle) = [newDetection (envWith 0.9 0.9)] \<and>
   run (handleEvent fullLogState ClickToggle) [IntervalFire (envWith 0.9 0.1), ClickSettings] =
     run (handleEvent fullLogState ClickToggle) [ClickSettings]"
proof -
  have h: "isDetecting fullLogState" by (simp add: fullLogState_def)
  from stop_detection [OF h, of "[IntervalFire (envWith 0.9 0.1), ClickSettings]"] h
  show ?thesis by (simp add: isFire_def) (simp add: fullLogState_def)
qed

section \<open>Reset\<close>

text \<open>
  C5. From every state, whatever its statistics and its alert log are, \<^verbatim>\<open>resetStats\<close>
  produces statistics whose four fields are 0 and the empty alert log.
\<close>

theorem resetStats_zero:
  "totalDetections (stats (resetStats s)) = 0 \<and>
   maskedCount (stats (resetStats s)) = 0 \<and>
   unmaskedCount (stats (resetStats s)) = 0 \<and>
   complianceRate (stats (resetStats s)) = 0 \<and>
   alerts (resetStats s) = []"
  by (simp add: resetStats_def setAlerts_def setStats_def)

text \<open>
  C10. \<^verbatim>\<open>resetStats\<close> changes nothing but the statistics and the alert log: the displayed
  detections and the detecting flag (and the sensitivity, the settings panel and the
  interval) are as before.
\<close>

theorem resetStats_frame:
  "detections (resetStats s) = detections s \<and>
   isDetecting (resetStats s) = isDetecting s \<and>
   resetStats s = s\<lparr>stats := stats (resetStats s), alerts := alerts (resetStats s)\<rparr>"
  by (simp add: resetStats_def setAlerts_def setStats_def)

end
